theory Spec2Isabelle
  imports
    Complex_Main
    "HOL-Library.Char_ord"
    "HOL-Library.List_Lexorder"
    "HOL-Library.Product_Lexorder"
    "HOL-Library.Multiset"
begin

section \<open>The P2P analysis script (p.py): data model\<close>

text \<open>
  The script reads one spreadsheet into a pandas frame \<open>df\<close>, coerces two date columns
  and six numeric columns, adds derived columns, builds grouped tables and row filters and
  stores them in the Streamlit session state.

  Modelling conventions.
  \<^item> A cell that pandas holds as NaN or NaT (an empty cell, or one that
    \<open>errors='coerce'\<close> could not parse) is \<open>None\<close>.
  \<^item> A timestamp is an \<open>int\<close>: nanoseconds since the epoch, as pandas stores it.
  \<^item> A number is a \<open>rat\<close>: arithmetic is exact. The rounding of float64 and its
    infinities are outside this model.
  \<^item> A row holds, for each of the seventeen source columns, the value the processing
    block works with: the date columns after \<open>pd.to_datetime\<close> (lines 25-26), the six
    numeric columns after \<open>pd.to_numeric\<close> (line 43), the others as read.
  \<^item> A frame is the list of its column names and the list of its rows. Indexing the
    frame by a column that is not in the list raises \<open>KeyError\<close>.
\<close>

type_synonym timestamp = int

record po_row =
  vendor_name :: "string option"
  vendor_number :: "int option"
  entity_name :: "string option"
  it_non_it :: "string option"
  material_description :: "string option"
  service_area :: "string option"
  purchasing_document_number :: "int option"
  document_date :: "timestamp option"
  delivery_date :: "timestamp option"
  ordered_quantity :: "rat option"
  delivery_quantity :: "rat option"
  still_to_deliver :: "rat option"
  po_ordered_value :: "rat option"
  po_invoice_value :: "rat option"
  po_down_payment :: "rat option"
  gr_document_number :: "int option"
  ir_document_number :: "int option"



subsection \<open>Null-aware arithmetic of pandas columns\<close>

text \<open>Comparisons with NaN or NaT are False; arithmetic with NaN or NaT is NaN or NaT.\<close>

definition lt_na :: "'a::linorder option \<Rightarrow> 'a option \<Rightarrow> bool" where
  "lt_na a b = (case (a, b) of (Some x, Some y) \<Rightarrow> x < y | _ \<Rightarrow> False)"

definition gt_na :: "'a::linorder option \<Rightarrow> 'a option \<Rightarrow> bool" where
  "gt_na a b = (case (a, b) of (Some x, Some y) \<Rightarrow> x > y | _ \<Rightarrow> False)"

definition ge_na :: "'a::linorder option \<Rightarrow> 'a option \<Rightarrow> bool" where
  "ge_na a b = (case (a, b) of (Some x, Some y) \<Rightarrow> x \<ge> y | _ \<Rightarrow> False)"

definition eq_na :: "'a option \<Rightarrow> 'a option \<Rightarrow> bool" where
  "eq_na a b = (case (a, b) of (Some x, Some y) \<Rightarrow> x = y | _ \<Rightarrow> False)"

definition sub_na :: "'a::minus option \<Rightarrow> 'a option \<Rightarrow> 'a option" where
  "sub_na a b = (case (a, b) of (Some x, Some y) \<Rightarrow> Some (x - y) | _ \<Rightarrow> None)"

definition fillna :: "'a \<Rightarrow> 'a option \<Rightarrow> 'a" where
  "fillna v a = (case a of None \<Rightarrow> v | Some x \<Rightarrow> x)"

text \<open>The \<open>sum\<close> reduction of a group skips NaN: a null cell adds 0.\<close>

definition nansum :: "rat option list \<Rightarrow> rat" where
  "nansum xs = sum_list (map (fillna 0) xs)"

subsection \<open>Dates: \<open>.dt.days\<close> and \<open>.dt.to_period('M').astype(str)\<close>\<close>

definition ns_per_day :: int where
  "ns_per_day = 86400000000000"

text \<open>\<open>Timedelta.days\<close> is the floor of the difference in days.\<close>

definition dt_days :: "int option \<Rightarrow> int option" where
  "dt_days td = map_option (\<lambda>t. t div ns_per_day) td"

text \<open>Year and month of a day number (days since 1970-01-01), proleptic Gregorian.\<close>

definition year_month :: "int \<Rightarrow> int \<times> int" where
  "year_month z0 =
     (let z = z0 + 719468;
          era = z div 146097;
          doe = z - era * 146097;
          yoe = (doe - doe div 1460 + doe div 36524 - doe div 146096) div 365;
          doy = doe - (365 * yoe + yoe div 4 - yoe div 100);
          mp = (5 * doy + 2) div 153;
          m = (if mp < 10 then mp + 3 else mp - 9);
          y = yoe + era * 400 + (if m \<le> 2 then 1 else 0)
      in (y, m))"

definition digit :: "int \<Rightarrow> char" where
  "digit d = ''0123456789'' ! nat (d mod 10)"

text \<open>A period prints as four digits of the year, a dash, two digits of the month.\<close>

definition period_str :: "timestamp \<Rightarrow> string" where
  "period_str t =
     (let (y, m) = year_month (t div ns_per_day)
      in [digit (y div 1000), digit (y div 100), digit (y div 10), digit y,
          CHR ''-'', digit (m div 10), digit m])"

text \<open>\<open>astype(str)\<close> turns the null period NaT into the string \<open>NaT\<close>.\<close>

definition to_period_M_str :: "timestamp option \<Rightarrow> string" where
  "to_period_M_str d = (case d of None \<Rightarrow> ''NaT'' | Some t \<Rightarrow> period_str t)"

section \<open>Derived columns (lines 29-57)\<close>

definition Month :: "po_row \<Rightarrow> string" where
  "Month r = to_period_M_str (document_date r)"

definition Delivery_Date_Anomaly :: "po_row \<Rightarrow> bool" where
  "Delivery_Date_Anomaly r = lt_na (delivery_date r) (document_date r)"

definition Date_Difference :: "po_row \<Rightarrow> int option" where
  "Date_Difference r = dt_days (sub_na (delivery_date r) (document_date r))"

definition Delivery_Delay :: "po_row \<Rightarrow> int" where
  "Delivery_Delay r = fillna (- 1) (dt_days (sub_na (delivery_date r) (document_date r)))"

definition Why_PO_Delay :: "po_row \<Rightarrow> string" where
  "Why_PO_Delay r = (if Delivery_Delay r < 0 then ''PO raised after delivery'' else '''')"

definition Overbilling_Flag :: "po_row \<Rightarrow> bool" where
  "Overbilling_Flag r = gt_na (po_invoice_value r) (po_ordered_value r)"

definition Overbilling_Amount :: "po_row \<Rightarrow> rat option" where
  "Overbilling_Amount r = sub_na (po_invoice_value r) (po_ordered_value r)"

text \<open>
  Line 56 reads the system clock: \<open>current_date = pd.Timestamp.today()\<close>. The clock is
  part of the world the script runs in, not of its input.
\<close>

record world =
  wall_clock :: timestamp

definition Timestamp_today :: "world \<Rightarrow> timestamp" where
  "Timestamp_today w = wall_clock w"

definition On_Time :: "world \<Rightarrow> po_row \<Rightarrow> bool" where
  "On_Time w r =
     (let current_date = Timestamp_today w
      in ge_na (delivery_date r) (Some current_date) \<or> eq_na (still_to_deliver r) (Some 0))"

section \<open>Grouped tables\<close>

text \<open>
  \<open>df.groupby(keys).agg({col: 'sum', ...}).reset_index()\<close>: rows with a null key field
  are dropped (\<open>dropna=True\<close>), there is one output row per distinct key, the rows are
  in ascending key order (\<open>sort=True\<close>), and each sum skips null cells. The key function
  returns \<open>None\<close> for a row with a null key field.
\<close>

definition group_keys :: "('r \<Rightarrow> 'k::linorder option) \<Rightarrow> 'r list \<Rightarrow> 'k list" where
  "group_keys key xs = sort (remdups (List.map_filter key xs))"

definition group_rows :: "('r \<Rightarrow> 'k option) \<Rightarrow> 'r list \<Rightarrow> 'k \<Rightarrow> 'r list" where
  "group_rows key xs k = filter (\<lambda>r. key r = Some k) xs"

definition groupby_sum ::
  "('r \<Rightarrow> 'k::linorder option) \<Rightarrow> ('r \<Rightarrow> rat option) list \<Rightarrow> 'r list \<Rightarrow> ('k \<times> rat list) list" where
  "groupby_sum key metrics xs =
     map (\<lambda>k. (k, map (\<lambda>m. nansum (map m (group_rows key xs k))) metrics)) (group_keys key xs)"

text \<open>The i-th summed column of a table row, and the total of that column.\<close>

definition metric :: "nat \<Rightarrow> 'k \<times> rat list \<Rightarrow> rat" where
  "metric i row = snd row ! i"


subsection \<open>Group keys\<close>

definition key2 :: "'a option \<Rightarrow> 'b option \<Rightarrow> ('a \<times> 'b) option" where
  "key2 a b = (case (a, b) of (Some x, Some y) \<Rightarrow> Some (x, y) | _ \<Rightarrow> None)"

type_synonym vendor_key = "string \<times> int \<times> string \<times> string"

definition vendor_key :: "po_row \<Rightarrow> vendor_key option" where
  "vendor_key r =
     (case (vendor_name r, vendor_number r, entity_name r, it_non_it r) of
        (Some a, Some b, Some c, Some d) \<Rightarrow> Some (a, b, c, d)
      | _ \<Rightarrow> None)"

definition material_key :: "po_row \<Rightarrow> (string \<times> string) option" where
  "material_key r = key2 (material_description r) (it_non_it r)"


text \<open>The Month column is a string column: it is never null.\<close>

definition month_key :: "po_row \<Rightarrow> string option" where
  "month_key r = Some (Month r)"

definition monthly_key :: "po_row \<Rightarrow> (string \<times> vendor_key) option" where
  "monthly_key r = key2 (month_key r) (vendor_key r)"

subsection \<open>Spend tables (lines 59-84)\<close>

definition spend_metrics :: "(po_row \<Rightarrow> rat option) list" where
  "spend_metrics = [po_ordered_value, po_invoice_value, po_down_payment]"

definition total_spend_by_vendor :: "po_row list \<Rightarrow> (vendor_key \<times> rat list) list" where
  "total_spend_by_vendor df = groupby_sum vendor_key spend_metrics df"

definition total_spend_by_material :: "po_row list \<Rightarrow> ((string \<times> string) \<times> rat list) list" where
  "total_spend_by_material df = groupby_sum material_key spend_metrics df"


subsection \<open>Top 10 (lines 86-101)\<close>

text \<open>
  \<open>sort_values(by=col, ascending=False)\<close>: descending by the column. The model sorts
  stably (rows with equal values keep their order); pandas' default algorithm for a sort
  on one column does not promise an order among equal values. \<open>head(10)\<close> is the first
  ten rows, or all of them when there are fewer.
\<close>

definition sort_values_desc :: "('a \<Rightarrow> rat) \<Rightarrow> 'a list \<Rightarrow> 'a list" where
  "sort_values_desc col xs = sort_key (\<lambda>x. - col x) xs"

definition head :: "nat \<Rightarrow> 'a list \<Rightarrow> 'a list" where
  "head n xs = take n xs"

definition top_10_vendors :: "po_row list \<Rightarrow> (vendor_key \<times> rat list) list" where
  "top_10_vendors df = head 10 (sort_values_desc (metric 0) (total_spend_by_vendor df))"

definition top_10_materials :: "po_row list \<Rightarrow> ((string \<times> string) \<times> rat list) list" where
  "top_10_materials df = head 10 (sort_values_desc (metric 0) (total_spend_by_material df))"

definition monthly_spend_grouped :: "po_row list \<Rightarrow> ((string \<times> vendor_key) \<times> rat list) list" where
  "monthly_spend_grouped df = groupby_sum monthly_key spend_metrics df"

text \<open>
  \<open>sort_values(by=['Month', col], ascending=[True, False])\<close>: ascending by Month, then
  descending by the column; a sort on several keys is stable.
\<close>

definition sort_values_month_desc ::
  "((string \<times> 'k) \<times> rat list) list \<Rightarrow> ((string \<times> 'k) \<times> rat list) list" where
  "sort_values_month_desc xs = sort_key (\<lambda>row. (fst (fst row), - metric 0 row)) xs"

definition monthly_spend :: "po_row list \<Rightarrow> ((string \<times> vendor_key) \<times> rat list) list" where
  "monthly_spend df = sort_values_month_desc (monthly_spend_grouped df)"

text \<open>
  \<open>groupby(key).head(n)\<close>: the rows whose position within their group is below n, in
  the order of the frame. \<open>seen\<close> holds the keys of the rows already passed.
\<close>

fun groupby_head :: "('a \<Rightarrow> 'k) \<Rightarrow> nat \<Rightarrow> 'k list \<Rightarrow> 'a list \<Rightarrow> 'a list" where
  "groupby_head key n seen [] = []"
| "groupby_head key n seen (x # xs) =
     (if count_list seen (key x) < n
      then x # groupby_head key n (key x # seen) xs
      else groupby_head key n (key x # seen) xs)"

definition top_10_vendors_monthly :: "po_row list \<Rightarrow> ((string \<times> vendor_key) \<times> rat list) list" where
  "top_10_vendors_monthly df = groupby_head (\<lambda>row. fst (fst row)) 10 [] (monthly_spend df)"

subsection \<open>Vendor summary with delivery percentage (lines 103-123)\<close>











subsection \<open>Trend tables (lines 137-148)\<close>




section \<open>Row filters\<close>

text \<open>
  A row filter \<open>df[mask]\<close> copies the selected rows with the columns \<open>df\<close> has at that
  line. The derived columns are added one by one, so the three filtered tables differ in
  their columns: \<open>overbilling_cases\<close> (line 47) ends with Overbilling_Flag,
  \<open>overbilling_df\<close> (line 53) also has Overbilling Amount, and \<open>quantity_errors\<close>
  (line 135) and the stored \<open>df\<close> also have On_Time.
\<close>

record derived_47 =
  col_Month :: string
  col_Delivery_Date_Anomaly :: bool
  col_Date_Difference :: "int option"
  col_Delivery_Delay :: int
  col_Why_PO_Delay :: string
  col_Overbilling_Flag :: bool

record derived_53 = derived_47 +
  col_Overbilling_Amount :: "rat option"

record derived_57 = derived_53 +
  col_On_Time :: bool

definition derive_47 :: "po_row \<Rightarrow> derived_47" where
  "derive_47 r =
     \<lparr>col_Month = Month r,
      col_Delivery_Date_Anomaly = Delivery_Date_Anomaly r,
      col_Date_Difference = Date_Difference r,
      col_Delivery_Delay = Delivery_Delay r,
      col_Why_PO_Delay = Why_PO_Delay r,
      col_Overbilling_Flag = Overbilling_Flag r\<rparr>"

definition derive_53 :: "po_row \<Rightarrow> derived_53" where
  "derive_53 r =
     derived_47.extend (derive_47 r) (derived_53.fields (Overbilling_Amount r))"

definition derive_57 :: "world \<Rightarrow> po_row \<Rightarrow> derived_57" where
  "derive_57 w r =
     derived_53.extend (derive_53 r) (derived_57.fields (On_Time w r))"

definition df_47 :: "po_row list \<Rightarrow> (po_row \<times> derived_47) list" where
  "df_47 df = map (\<lambda>r. (r, derive_47 r)) df"

definition df_53 :: "po_row list \<Rightarrow> (po_row \<times> derived_53) list" where
  "df_53 df = map (\<lambda>r. (r, derive_53 r)) df"

definition df_57 :: "world \<Rightarrow> po_row list \<Rightarrow> (po_row \<times> derived_57) list" where
  "df_57 w df = map (\<lambda>r. (r, derive_57 w r)) df"

definition overbilling_cases :: "po_row list \<Rightarrow> (po_row \<times> derived_47) list" where
  "overbilling_cases df = filter (\<lambda>(r, d). col_Overbilling_Flag d) (df_47 df)"

definition overbilling_df :: "po_row list \<Rightarrow> (po_row \<times> derived_53) list" where
  "overbilling_df df = filter (\<lambda>(r, d). gt_na (col_Overbilling_Amount d) (Some 0)) (df_53 df)"


text \<open>
  The underbilling view (lines 413-414 and 462-463) filters the stored frame and adds the
  column Underbilling Amount, the negated Overbilling Amount.
\<close>

definition underbilling_df ::
  "(po_row \<times> derived_57) list \<Rightarrow> (po_row \<times> derived_57 \<times> rat option) list" where
  "underbilling_df stored_df =
     map (\<lambda>(r, d). (r, d, map_option uminus (col_Overbilling_Amount d)))
       (filter (\<lambda>(r, d). lt_na (col_Overbilling_Amount d) (Some 0)) stored_df)"

subsection \<open>Delayed POs (lines 125-132)\<close>









section \<open>The processing block and the session state (lines 15-168)\<close>










section \<open>Sample data\<close>

definition blank_row :: po_row where
  "blank_row =
     \<lparr>vendor_name = None, vendor_number = None, entity_name = None, it_non_it = None,
      material_description = None, service_area = None, purchasing_document_number = None,
      document_date = None, delivery_date = None, ordered_quantity = None,
      delivery_quantity = None, still_to_deliver = None, po_ordered_value = None,
      po_invoice_value = None, po_down_payment = None, gr_document_number = None,
      ir_document_number = None\<rparr>"

definition spend_row :: "string \<Rightarrow> rat \<Rightarrow> rat \<Rightarrow> po_row" where
  "spend_row v ordered invoiced =
     blank_row\<lparr>vendor_name := Some v, vendor_number := Some 1, entity_name := Some ''E'',
       it_non_it := Some ''IT'', po_ordered_value := Some ordered,
       po_invoice_value := Some invoiced\<rparr>"

definition quantity_row :: "string \<Rightarrow> rat option \<Rightarrow> rat option \<Rightarrow> po_row" where
  "quantity_row v ordered delivered =
     blank_row\<lparr>vendor_name := Some v, vendor_number := Some 1, entity_name := Some ''E'',
       it_non_it := Some ''IT'', ordered_quantity := ordered, delivery_quantity := delivered\<rparr>"

text \<open>Three order lines: one overbilled by 200, one exact, one underbilled by 50.\<close>

definition example_df :: "po_row list" where
  "example_df = [spend_row ''A'' 1000 1200, spend_row ''A'' 500 500, spend_row ''B'' 300 250]"

text \<open>The same with a line that has no vendor and a line whose invoice value is null.\<close>

definition example_nulls_df :: "po_row list" where
  "example_nulls_df =
     example_df @ [blank_row\<lparr>po_ordered_value := Some 999, po_invoice_value := Some 999\<rparr>,
                   (spend_row ''B'' 10 0)\<lparr>po_invoice_value := None\<rparr>]"



text \<open>
  Three vendors in March 2024, two of them with equal spend, one in April, one undated.
\<close>

definition dated_spend_row :: "string \<Rightarrow> timestamp \<Rightarrow> rat \<Rightarrow> po_row" where
  "dated_spend_row v t ordered = (spend_row v ordered ordered)\<lparr>document_date := Some t\<rparr>"

definition monthly_example_df :: "po_row list" where
  "monthly_example_df =
     [dated_spend_row ''A'' (19797 * ns_per_day) 100,
      dated_spend_row ''B'' (19798 * ns_per_day) 100,
      dated_spend_row ''C'' (19799 * ns_per_day) 300,
      dated_spend_row ''A'' (19830 * ns_per_day) 50,
      spend_row ''D'' 10 10]"




text \<open>Eleven vendors with the ordered values 0 to 10.\<close>

definition eleven_vendors_df :: "po_row list" where
  "eleven_vendors_df =
     map (\<lambda>i. (spend_row ''V'' (of_nat i) 0)\<lparr>vendor_number := Some (int i)\<rparr>) [0..<11]"

section \<open>Properties of the derived columns\<close>

lemma ns_per_day_pos: "0 < ns_per_day"
  by (simp add: ns_per_day_def)

lemmas sample_defs = blank_row_def spend_row_def quantity_row_def example_df_def


text \<open>
  Claim C4, as the code has it. Delivery Delay is \<open>-1\<close> whenever the delivery date or
  the document date is null. When both are present it is the difference delivery date
  minus document date in whole days, rounded down; for two midnight dates that is the
  exact number of days between them. It can be negative, and it can be \<open>-1\<close>.
\<close>

theorem delivery_delay_cases:
  "(delivery_date r = None \<or> document_date r = None \<longrightarrow> Delivery_Delay r = - 1) \<and>
   (\<forall>d c. delivery_date r = Some d \<and> document_date r = Some c \<longrightarrow>
      Delivery_Delay r = (d - c) div ns_per_day) \<and>
   (\<forall>a b. delivery_date r = Some (a * ns_per_day) \<and> document_date r = Some (b * ns_per_day) \<longrightarrow>
      Delivery_Delay r = a - b)"
proof -
  have whole: "(a * ns_per_day - b * ns_per_day) div ns_per_day = a - b" for a b
  proof -
    have "a * ns_per_day - b * ns_per_day = (a - b) * ns_per_day"
      by (simp add: algebra_simps)
    then show ?thesis
      using ns_per_day_pos by simp
  qed
  show ?thesis
    by (auto simp: Delivery_Delay_def sub_na_def dt_days_def fillna_def whole
        split: option.splits)
qed

theorem delivery_delay_cases_witness:
  "Delivery_Delay (blank_row\<lparr>delivery_date := Some (3 * ns_per_day),
                     document_date := Some (5 * ns_per_day)\<rparr>) = - 2
   \<and> Delivery_Delay (blank_row\<lparr>document_date := Some (5 * ns_per_day)\<rparr>) = - 1"
  using delivery_delay_cases [of "blank_row\<lparr>delivery_date := Some (3 * ns_per_day),
                                    document_date := Some (5 * ns_per_day)\<rparr>"]
        delivery_delay_cases [of "blank_row\<lparr>document_date := Some (5 * ns_per_day)\<rparr>"]
  by (simp add: blank_row_def ns_per_day_def)

text \<open>
  Claim C4 as stated fails: a delivery dated the day before the document has a delay
  of \<open>-1\<close> although its delivery date is not null.
\<close>

theorem delivery_delay_sentinel_counterexample:
  "\<not> (Delivery_Delay (blank_row\<lparr>delivery_date := Some (10 * ns_per_day),
                          document_date := Some (11 * ns_per_day)\<rparr>) = - 1
      \<longleftrightarrow> delivery_date (blank_row\<lparr>delivery_date := Some (10 * ns_per_day),
                              document_date := Some (11 * ns_per_day)\<rparr>) = None)"
  by (simp add: Delivery_Delay_def sub_na_def dt_days_def fillna_def ns_per_day_def)

lemmas derive_defs = derive_57_def derive_53_def derive_47_def derived_47.truncate_def
  derived_53.truncate_def derived_47.extend_def derived_53.extend_def derived_53.fields_def
  derived_57.fields_def

text \<open>
  Claim C8, as the code has it. On_Time is true exactly when the delivery date is present
  and at or after the instant read from the system clock, or the still-to-deliver quantity
  is present and zero. The instant is read once in the block (line 56), so it is the same
  for all rows of a run; it comes from the clock of the world, not from the input.
\<close>

theorem on_time_iff:
  "map (\<lambda>(r, d). col_On_Time d) (df_57 w df) =
     map (\<lambda>r. (case delivery_date r of None \<Rightarrow> False | Some d \<Rightarrow> d \<ge> wall_clock w)
               \<or> still_to_deliver r = Some 0) df"
  unfolding df_57_def
  by (induction df)
     (auto simp: derive_defs On_Time_def Timestamp_today_def ge_na_def eq_na_def
        split: option.splits)

theorem on_time_iff_witness:
  "map (\<lambda>(r, d). col_On_Time d)
     (df_57 \<lparr>wall_clock = 100\<rparr>
        [blank_row\<lparr>delivery_date := Some 150\<rparr>, blank_row\<lparr>delivery_date := Some 50\<rparr>,
         blank_row\<lparr>still_to_deliver := Some 0\<rparr>, blank_row])
   = [True, False, True, False]"
  using on_time_iff [of "\<lparr>wall_clock = 100\<rparr>"
        "[blank_row\<lparr>delivery_date := Some 150\<rparr>, blank_row\<lparr>delivery_date := Some 50\<rparr>,
          blank_row\<lparr>still_to_deliver := Some 0\<rparr>, blank_row]"]
  by (simp add: blank_row_def)

text \<open>
  Claim C8 as stated fails. A delivery dated at the instant itself is on time although it
  is not in the future, and the flag of one and the same row changes with the clock.
\<close>

theorem on_time_ambient_clock_counterexample:
  "On_Time \<lparr>wall_clock = 100\<rparr> (blank_row\<lparr>delivery_date := Some 100, still_to_deliver := Some 1\<rparr>)
   \<and> \<not> (100 :: int) < 100
   \<and> still_to_deliver (blank_row\<lparr>delivery_date := Some 100, still_to_deliver := Some 1\<rparr>) \<noteq> Some 0
   \<and> On_Time \<lparr>wall_clock = 50\<rparr> (blank_row\<lparr>delivery_date := Some 100, still_to_deliver := Some 1\<rparr>)
       \<noteq> On_Time \<lparr>wall_clock = 200\<rparr> (blank_row\<lparr>delivery_date := Some 100, still_to_deliver := Some 1\<rparr>)"
  by (simp add: On_Time_def Timestamp_today_def ge_na_def eq_na_def blank_row_def)

section \<open>Properties of the row filters\<close>

text \<open>
  Claim C10. The rows selected by invoice value > ordered value (\<open>overbilling_cases\<close>)
  are the rows selected by invoice value - ordered value > 0 (\<open>overbilling_df\<close>), in
  the same order; the second table only has the further column Overbilling Amount.
\<close>

theorem overbilling_tables_agree:
  "map (\<lambda>(r, d). (r, derived_47.truncate d)) (overbilling_df df) = overbilling_cases df"
  unfolding overbilling_df_def overbilling_cases_def df_53_def df_47_def
  by (induction df)
     (auto simp: derive_defs Overbilling_Amount_def Overbilling_Flag_def gt_na_def sub_na_def
        split: option.splits)

theorem overbilling_tables_agree_witness:
  "map (\<lambda>(r, d). (r, derived_47.truncate d)) (overbilling_df example_df)
     = [(spend_row ''A'' 1000 1200, derive_47 (spend_row ''A'' 1000 1200))]
   \<and> overbilling_cases example_df
     = [(spend_row ''A'' 1000 1200, derive_47 (spend_row ''A'' 1000 1200))]"
proof -
  have "overbilling_cases example_df
     = [(spend_row ''A'' 1000 1200, derive_47 (spend_row ''A'' 1000 1200))]"
    by (simp add: overbilling_cases_def df_47_def example_df_def derive_47_def
        Overbilling_Flag_def gt_na_def spend_row_def blank_row_def)
  then show ?thesis
    using overbilling_tables_agree [of example_df] by simp
qed

lemma overbilling_df_rows:
  "map fst (overbilling_df df) = filter (\<lambda>r. gt_na (Overbilling_Amount r) (Some 0)) df"
  unfolding overbilling_df_def df_53_def
  by (induction df) (auto simp: derive_defs)

lemma underbilling_df_rows:
  "map fst (underbilling_df (df_57 w df)) = filter (\<lambda>r. lt_na (Overbilling_Amount r) (Some 0)) df"
  unfolding underbilling_df_def df_57_def
  by (induction df) (auto simp: derive_defs)

lemma amount_sign:
  "(gt_na (Overbilling_Amount r) (Some 0) \<longleftrightarrow> (\<exists>a. Overbilling_Amount r = Some a \<and> a > 0))"
  "(lt_na (Overbilling_Amount r) (Some 0) \<longleftrightarrow> (\<exists>a. Overbilling_Amount r = Some a \<and> a < 0))"
  "(Overbilling_Amount r = None \<longleftrightarrow> po_invoice_value r = None \<or> po_ordered_value r = None)"
  by (auto simp: gt_na_def lt_na_def Overbilling_Amount_def sub_na_def split: option.splits)

text \<open>
  Claim C5, as the code has it. Among the records whose ordered value and invoice value
  are both present, the overbilling table (amount > 0), the underbilling table
  (amount < 0) and the exact matches (amount = 0) form a partition: together they hold
  each such record once, and no record is in two of them. A record with a null ordered or
  invoice value has a null amount and is in none of the three.
\<close>

theorem billing_partition:
  "mset (map fst (overbilling_df df)) + mset (map fst (underbilling_df (df_57 w df)))
     + mset (filter (\<lambda>r. Overbilling_Amount r = Some 0) df)
   = mset (filter (\<lambda>r. po_invoice_value r \<noteq> None \<and> po_ordered_value r \<noteq> None) df)
   \<and> set (map fst (overbilling_df df)) \<inter> set (map fst (underbilling_df (df_57 w df))) = {}
   \<and> set (map fst (overbilling_df df)) \<inter> {r. Overbilling_Amount r = Some 0} = {}
   \<and> set (map fst (underbilling_df (df_57 w df))) \<inter> {r. Overbilling_Amount r = Some 0} = {}
   \<and> (\<forall>r \<in> set df. po_invoice_value r = None \<or> po_ordered_value r = None \<longrightarrow>
         r \<notin> set (map fst (overbilling_df df)) \<and>
         r \<notin> set (map fst (underbilling_df (df_57 w df))) \<and>
         Overbilling_Amount r \<noteq> Some 0)"
proof -
  have "mset (filter (\<lambda>r. gt_na (Overbilling_Amount r) (Some 0)) df)
      + mset (filter (\<lambda>r. lt_na (Overbilling_Amount r) (Some 0)) df)
      + mset (filter (\<lambda>r. Overbilling_Amount r = Some 0) df)
      = mset (filter (\<lambda>r. po_invoice_value r \<noteq> None \<and> po_ordered_value r \<noteq> None) df)"
  proof (induction df)
    case Nil
    show ?case by simp
  next
    case (Cons r df)
    consider "Overbilling_Amount r = None" | a where "Overbilling_Amount r = Some a"
      by (cases "Overbilling_Amount r") auto
    then show ?case
    proof cases
      case 1
      with Cons show ?thesis
        using amount_sign(3) [of r] by (simp add: amount_sign(1,2))
    next
      case 2
      then have "po_invoice_value r \<noteq> None \<and> po_ordered_value r \<noteq> None"
        using amount_sign(3) [of r] by auto
      with 2 Cons show ?thesis
        by (cases "a > 0"; cases "a < 0") (auto simp: amount_sign(1,2))
    qed
  qed
  moreover have "\<forall>r \<in> set df. po_invoice_value r = None \<or> po_ordered_value r = None \<longrightarrow>
         \<not> gt_na (Overbilling_Amount r) (Some 0) \<and> \<not> lt_na (Overbilling_Amount r) (Some 0)
         \<and> Overbilling_Amount r \<noteq> Some 0"
  proof (intro ballI impI)
    fix r :: po_row
    assume "po_invoice_value r = None \<or> po_ordered_value r = None"
    then have "Overbilling_Amount r = None"
      by (simp add: amount_sign(3))
    then show "\<not> gt_na (Overbilling_Amount r) (Some 0) \<and> \<not> lt_na (Overbilling_Amount r) (Some 0)
         \<and> Overbilling_Amount r \<noteq> Some 0"
      by (simp add: gt_na_def lt_na_def)
  qed
  ultimately show ?thesis
    unfolding overbilling_df_rows underbilling_df_rows
    by (auto simp: amount_sign(1,2))
qed

theorem billing_partition_witness:
  "mset (map fst (overbilling_df example_nulls_df))
     + mset (map fst (underbilling_df (df_57 \<lparr>wall_clock = 0\<rparr> example_nulls_df)))
     + mset (filter (\<lambda>r. Overbilling_Amount r = Some 0) example_nulls_df)
   = mset (example_df @ [blank_row\<lparr>po_ordered_value := Some 999, po_invoice_value := Some 999\<rparr>])
   \<and> (spend_row ''B'' 10 0)\<lparr>po_invoice_value := None\<rparr>
        \<notin> set (map fst (overbilling_df example_nulls_df))
   \<and> (spend_row ''B'' 10 0)\<lparr>po_invoice_value := None\<rparr>
        \<notin> set (map fst (underbilling_df (df_57 \<lparr>wall_clock = 0\<rparr> example_nulls_df)))"
proof -
  have f: "filter (\<lambda>r. po_invoice_value r \<noteq> None \<and> po_ordered_value r \<noteq> None) example_nulls_df
      = example_df @ [blank_row\<lparr>po_ordered_value := Some 999, po_invoice_value := Some 999\<rparr>]"
    by (simp add: example_nulls_df_def sample_defs)
  have n: "(spend_row ''B'' 10 0)\<lparr>po_invoice_value := None\<rparr> \<in> set example_nulls_df"
    "po_invoice_value ((spend_row ''B'' 10 0)\<lparr>po_invoice_value := None\<rparr>) = None"
    by (simp_all add: example_nulls_df_def)
  show ?thesis
    using billing_partition [of example_nulls_df "\<lparr>wall_clock = 0\<rparr>"] n
    unfolding f by blast
qed

text \<open>
  Claim C5 as stated fails: a record with an ordered value and no invoice value is in
  the frame and in none of the three sets.
\<close>

theorem billing_partition_null_counterexample:
  "blank_row\<lparr>po_ordered_value := Some 100\<rparr> \<in> set [blank_row\<lparr>po_ordered_value := Some 100\<rparr>]
   \<and> blank_row\<lparr>po_ordered_value := Some 100\<rparr>
       \<notin> set (map fst (overbilling_df [blank_row\<lparr>po_ordered_value := Some 100\<rparr>]))
   \<and> blank_row\<lparr>po_ordered_value := Some 100\<rparr>
       \<notin> set (map fst (underbilling_df
               (df_57 \<lparr>wall_clock = 0\<rparr> [blank_row\<lparr>po_ordered_value := Some 100\<rparr>])))
   \<and> Overbilling_Amount (blank_row\<lparr>po_ordered_value := Some 100\<rparr>) \<noteq> Some 0"
  by (simp add: overbilling_df_def underbilling_df_def df_53_def df_57_def derive_defs
      Overbilling_Amount_def sub_na_def gt_na_def lt_na_def blank_row_def)

section \<open>Properties of the grouped tables\<close>




















lemma sort_values_desc_sorted:
  "sorted_wrt (\<lambda>a b. col a \<ge> col b) (sort_values_desc col xs)"
proof -
  have "sorted (map (\<lambda>x. - col x) (sort_key (\<lambda>x. - col x) xs))"
    by (rule sorted_sort_key)
  then show ?thesis
    by (simp add: sort_values_desc_def sorted_map)
qed

lemma sort_values_desc_stable:
  "filter (\<lambda>y. col y = v) (sort_values_desc col xs) = filter (\<lambda>y. col y = v) xs"
  using sort_key_stable [of "\<lambda>x. - col x" "- v" xs]
  by (simp add: sort_values_desc_def)

lemma head_sort_values_desc:
  fixes col :: "'a \<Rightarrow> rat" and n :: nat and xs :: "'a list"
  defines "best \<equiv> head n (sort_values_desc col xs)"
  shows "sorted_wrt (\<lambda>a b. col a \<ge> col b) best"
    and "length best = min n (length xs)"
    and "mset best \<subseteq># mset xs"
    and "\<forall>a \<in> set best. \<forall>b \<in># mset xs - mset best. col b \<le> col a"
    and "length xs \<le> n \<longrightarrow> mset best = mset xs"
proof -
  let ?ys = "sort_values_desc col xs"
  have ys: "mset ?ys = mset xs" "length ?ys = length xs"
    by (simp_all add: sort_values_desc_def)
  have split: "?ys = best @ drop n ?ys"
    by (simp add: best_def head_def)
  have sorted: "sorted_wrt (\<lambda>a b. col a \<ge> col b) (best @ drop n ?ys)"
    using sort_values_desc_sorted [of col xs] split by simp
  show "sorted_wrt (\<lambda>a b. col a \<ge> col b) best"
    using sorted by (simp add: sorted_wrt_append)
  show "length best = min n (length xs)"
    by (simp add: best_def head_def ys min.commute)
  have m: "mset xs = mset best + mset (drop n ?ys)"
    using arg_cong [OF split, of mset] ys by simp
  show "mset best \<subseteq># mset xs"
    by (simp add: m)
  have rest: "mset xs - mset best = mset (drop n ?ys)"
    by (simp add: m)
  show "\<forall>a \<in> set best. \<forall>b \<in># mset xs - mset best. col b \<le> col a"
    unfolding rest using sorted by (auto simp: sorted_wrt_append)
  show "length xs \<le> n \<longrightarrow> mset best = mset xs"
    by (simp add: best_def head_def ys)
qed

lemma insort_key_pair_const:
  fixes g :: "'a \<Rightarrow> 'b::linorder" and h :: "'a \<Rightarrow> 'c::linorder"
  assumes "g a = c" "\<forall>x \<in> set ys. g x = c"
  shows "insort_key (\<lambda>x. (g x, h x)) a ys = insort_key h a ys"
  using assms by (induction ys) (auto simp: less_eq_prod_def)

lemma sort_key_pair_const:
  fixes g :: "'a \<Rightarrow> 'b::linorder" and h :: "'a \<Rightarrow> 'c::linorder"
  assumes "\<forall>x \<in> set xs. g x = c"
  shows "sort_key (\<lambda>x. (g x, h x)) xs = sort_key h xs"
  using assms
proof (induction xs)
  case Nil
  show ?case by simp
next
  case (Cons a xs)
  from Cons.prems have a: "g a = c" and rest: "\<forall>x \<in> set xs. g x = c"
    by simp_all
  from rest have "sort_key (\<lambda>x. (g x, h x)) xs = sort_key h xs"
    by (rule Cons.IH)
  moreover have "insort_key (\<lambda>x. (g x, h x)) a (sort_key h xs) = insort_key h a (sort_key h xs)"
    using a rest by (intro insort_key_pair_const [where g = g and c = c]) simp_all
  ultimately show ?case by simp
qed

lemma groupby_head_filter:
  "filter (\<lambda>x. key x = m) (groupby_head key n seen xs)
   = take (n - count_list seen m) (filter (\<lambda>x. key x = m) xs)"
proof (induction xs arbitrary: seen)
  case Nil
  show ?case by simp
next
  case (Cons x xs)
  show ?case
  proof (cases "key x = m")
    case True
    show ?thesis
    proof (cases "count_list seen m < n")
      case True
      then obtain j where j: "n - count_list seen m = Suc j"
        by (cases "n - count_list seen m") auto
      then have "n - Suc (count_list seen m) = j" by simp
      with True \<open>key x = m\<close> j show ?thesis
        by (simp add: Cons.IH)
    next
      case False
      with \<open>key x = m\<close> show ?thesis
        by (simp add: Cons.IH)
    qed
  next
    case False
    then show ?thesis
      by (simp add: Cons.IH)
  qed
qed

lemma groupby_head_subset: "set (groupby_head key n seen xs) \<subseteq> set xs"
  by (induction xs arbitrary: seen) auto

lemma groupby_head_sorted:
  "sorted (map f xs) \<Longrightarrow> sorted (map f (groupby_head key n seen xs))"
proof (induction xs arbitrary: seen)
  case Nil
  show ?case by simp
next
  case (Cons x xs)
  then show ?case
    using groupby_head_subset [of key n "key x # seen" xs] by auto
qed

lemma monthly_slice:
  "filter (\<lambda>row. fst (fst row) = m) (top_10_vendors_monthly df)
   = take 10 (sort_values_desc (metric 0)
       (filter (\<lambda>row. fst (fst row) = m) (monthly_spend_grouped df)))"
proof -
  let ?G = "monthly_spend_grouped df"
  let ?Gm = "filter (\<lambda>row. fst (fst row) = m) ?G"
  have "filter (\<lambda>row. fst (fst row) = m) (top_10_vendors_monthly df)
      = take 10 (filter (\<lambda>row. fst (fst row) = m) (monthly_spend df))"
    by (simp add: top_10_vendors_monthly_def groupby_head_filter)
  also have "filter (\<lambda>row. fst (fst row) = m) (monthly_spend df)
      = sort_key (\<lambda>row. (fst (fst row), - metric 0 row)) ?Gm"
    by (simp add: monthly_spend_def sort_values_month_desc_def filter_sort)
  also have "\<dots> = sort_key (\<lambda>row. - metric 0 row) ?Gm"
    by (rule sort_key_pair_const [where c = m]) simp
  finally show ?thesis
    by (simp add: sort_values_desc_def)
qed

text \<open>
  Claim C7. The Top 10 tables of vendors and of materials are the first ten rows of the
  full table sorted by total ordered value, descending: they are sorted, hold
  \<open>min 10 n\<close> of the n rows of the full table, no row left out exceeds a row kept, and
  with at most ten keys they hold every row of the full table and nothing else. In the
  monthly Top 10, the rows of each month are the first ten rows of that month's rows of
  the monthly table sorted descending; that sort keeps rows of equal value in their
  original order; and the months come in ascending order.
\<close>

theorem top_10_tables:
  "(sorted_wrt (\<lambda>a b. metric 0 a \<ge> metric 0 b) (top_10_vendors df)
    \<and> length (top_10_vendors df) = min 10 (length (total_spend_by_vendor df))
    \<and> mset (top_10_vendors df) \<subseteq># mset (total_spend_by_vendor df)
    \<and> (\<forall>a \<in> set (top_10_vendors df).
          \<forall>b \<in># mset (total_spend_by_vendor df) - mset (top_10_vendors df).
            metric 0 b \<le> metric 0 a)
    \<and> (length (total_spend_by_vendor df) \<le> 10 \<longrightarrow>
          mset (top_10_vendors df) = mset (total_spend_by_vendor df)))
   \<and> (sorted_wrt (\<lambda>a b. metric 0 a \<ge> metric 0 b) (top_10_materials df)
    \<and> length (top_10_materials df) = min 10 (length (total_spend_by_material df))
    \<and> mset (top_10_materials df) \<subseteq># mset (total_spend_by_material df)
    \<and> (\<forall>a \<in> set (top_10_materials df).
          \<forall>b \<in># mset (total_spend_by_material df) - mset (top_10_materials df).
            metric 0 b \<le> metric 0 a)
    \<and> (length (total_spend_by_material df) \<le> 10 \<longrightarrow>
          mset (top_10_materials df) = mset (total_spend_by_material df)))
   \<and> (\<forall>m. filter (\<lambda>row. fst (fst row) = m) (top_10_vendors_monthly df)
          = take 10 (sort_values_desc (metric 0)
              (filter (\<lambda>row. fst (fst row) = m) (monthly_spend_grouped df))))
   \<and> (\<forall>m v. filter (\<lambda>row. metric 0 row = v)
            (sort_values_desc (metric 0)
               (filter (\<lambda>row. fst (fst row) = m) (monthly_spend_grouped df)))
          = filter (\<lambda>row. metric 0 row = v)
              (filter (\<lambda>row. fst (fst row) = m) (monthly_spend_grouped df)))
   \<and> sorted (map (\<lambda>row. (fst (fst row), - metric 0 row)) (top_10_vendors_monthly df))"
proof -
  have v: "sorted_wrt (\<lambda>a b. metric 0 a \<ge> metric 0 b) (top_10_vendors df)
    \<and> length (top_10_vendors df) = min 10 (length (total_spend_by_vendor df))
    \<and> mset (top_10_vendors df) \<subseteq># mset (total_spend_by_vendor df)
    \<and> (\<forall>a \<in> set (top_10_vendors df).
          \<forall>b \<in># mset (total_spend_by_vendor df) - mset (top_10_vendors df).
            metric 0 b \<le> metric 0 a)
    \<and> (length (total_spend_by_vendor df) \<le> 10 \<longrightarrow>
          mset (top_10_vendors df) = mset (total_spend_by_vendor df))"
    unfolding top_10_vendors_def
    by (intro conjI head_sort_values_desc)
  have m: "sorted_wrt (\<lambda>a b. metric 0 a \<ge> metric 0 b) (top_10_materials df)
    \<and> length (top_10_materials df) = min 10 (length (total_spend_by_material df))
    \<and> mset (top_10_materials df) \<subseteq># mset (total_spend_by_material df)
    \<and> (\<forall>a \<in> set (top_10_materials df).
          \<forall>b \<in># mset (total_spend_by_material df) - mset (top_10_materials df).
            metric 0 b \<le> metric 0 a)
    \<and> (length (total_spend_by_material df) \<le> 10 \<longrightarrow>
          mset (top_10_materials df) = mset (total_spend_by_material df))"
    unfolding top_10_materials_def
    by (intro conjI head_sort_values_desc)
  have s: "sorted (map (\<lambda>row. (fst (fst row), - metric 0 row)) (top_10_vendors_monthly df))"
    unfolding top_10_vendors_monthly_def monthly_spend_def sort_values_month_desc_def
    by (intro groupby_head_sorted sorted_sort_key)
  have ms: "\<forall>m. filter (\<lambda>row. fst (fst row) = m) (top_10_vendors_monthly df)
          = take 10 (sort_values_desc (metric 0)
              (filter (\<lambda>row. fst (fst row) = m) (monthly_spend_grouped df)))"
    by (simp only: monthly_slice simp_thms)
  have st: "\<forall>m v. filter (\<lambda>row. metric 0 row = v)
            (sort_values_desc (metric 0)
               (filter (\<lambda>row. fst (fst row) = m) (monthly_spend_grouped df)))
          = filter (\<lambda>row. metric 0 row = v)
              (filter (\<lambda>row. fst (fst row) = m) (monthly_spend_grouped df))"
    by (simp only: sort_values_desc_stable simp_thms)
  show ?thesis
    by (rule conjI [OF v conjI [OF m conjI [OF ms conjI [OF st s]]]])
qed

theorem top_10_tables_witness:
  "length (total_spend_by_vendor monthly_example_df) \<le> 10
   \<and> mset (top_10_vendors monthly_example_df) = mset (total_spend_by_vendor monthly_example_df)
   \<and> filter (\<lambda>row. fst (fst row) = ''2024-03'') (top_10_vendors_monthly monthly_example_df)
       = [((''2024-03'', ''C'', 1, ''E'', ''IT''), [300, 300, 0]),
          ((''2024-03'', ''A'', 1, ''E'', ''IT''), [100, 100, 0]),
          ((''2024-03'', ''B'', 1, ''E'', ''IT''), [100, 100, 0])]
   \<and> length (total_spend_by_vendor eleven_vendors_df) = 11
   \<and> length (top_10_vendors eleven_vendors_df) = 10"
proof -
  have G: "monthly_spend_grouped monthly_example_df =
      [((''2024-03'', ''A'', 1, ''E'', ''IT''), [100, 100, 0]),
       ((''2024-03'', ''B'', 1, ''E'', ''IT''), [100, 100, 0]),
       ((''2024-03'', ''C'', 1, ''E'', ''IT''), [300, 300, 0]),
       ((''2024-04'', ''A'', 1, ''E'', ''IT''), [50, 50, 0]),
       ((''NaT'', ''D'', 1, ''E'', ''IT''), [10, 10, 0])]"
    by code_simp
  have T: "length (total_spend_by_vendor monthly_example_df) = 4"
    by code_simp
  have E: "length (total_spend_by_vendor eleven_vendors_df) = 11"
    by code_simp
  show ?thesis
    using top_10_tables [of monthly_example_df] top_10_tables [of eleven_vendors_df]
    by (simp add: G T E sort_values_desc_def metric_def)
qed







section \<open>Properties of the processing block\<close>














end
